theory Spec2Isabelle
  imports Complex_Main
begin

section \<open>Numbers and arguments\<close>

text \<open>
  JavaScript numbers are read as reals, with the three non-finite numbers and every
  value that is not a number at all (a string, a boolean, \<open>null\<close>, \<open>undefined\<close>)
  kept apart, because \<open>Number.isFinite\<close> in \<open>clamp\<close> tells them from the rest.
\<close>

datatype jsval = Num real | NaN | PosInf | NegInf | NotNumber

fun isFinite :: "jsval \<Rightarrow> bool" where
  "isFinite (Num x) = True"
| "isFinite v = False"

text \<open>\<open>Number.isFinite(n) ? n : min\<close> of usePomodoro.js line 239.\<close>

fun finite_or :: "jsval \<Rightarrow> real \<Rightarrow> real" where
  "finite_or (Num x) d = x"
| "finite_or v d = d"

text \<open>
  \<open>clamp(n, min, max) = Math.max(min, Math.min(max, Number.isFinite(n) ? n : min))\<close>.
  Both bounds are finite literals at every call, so \<open>Math.min\<close> and \<open>Math.max\<close>
  only ever meet finite numbers here.
\<close>

definition clamp :: "jsval \<Rightarrow> real \<Rightarrow> real \<Rightarrow> real" where
  "clamp n lo hi = max lo (min hi (finite_or n lo))"

text \<open>
  \<open>minutesToMs(m) = Math.round(m * 60 * 1000)\<close>. \<open>Math.round\<close> rounds a half
  towards plus infinity, which is \<open>\<lfloor>x + 1/2\<rfloor>\<close>, the \<open>round\<close> of HOL.
\<close>

definition minutesToMs :: "real \<Rightarrow> real" where
  "minutesToMs m = of_int (round (m * 60 * 1000))"

text \<open>The \<open>limits\<close> object and the defaults of usePomodoro.js lines 13-20.\<close>

definition DEFAULT_FOCUS :: real where "DEFAULT_FOCUS = 25"
definition DEFAULT_BREAK :: real where "DEFAULT_BREAK = 5"
definition minFocus :: real where "minFocus = 5"
definition maxFocus :: real where "maxFocus = 120"
definition minBreak :: real where "minBreak = 1"
definition maxBreak :: real where "maxBreak = 60"

section \<open>The durable store (utils/storage)\<close>

text \<open>
  A stored document is a flat JSON object: a map from keys to JSON values.
\<close>

datatype json = JNum real | JStr string | JBool bool | JNull

type_synonym doc = "string \<rightharpoonup> json"

text \<open>
  The text kept under the storage key is represented by what \<open>JSON.parse\<close> makes of it:
  the empty string, a text on which \<open>JSON.parse\<close> throws, or the text of an object.
  \<open>JSON.stringify\<close> of an object is the text that parses back to it. Texts of JSON
  values that are not objects do not occur: every writer of the key writes an object.
\<close>

datatype rawtext = Empty | Garbled | Encoded doc

datatype error = SecurityError | QuotaExceededError | SyntaxError

text \<open>
  \<open>localStorage\<close>: the item under \<open>KEY\<close>, whether access is refused (every call
  throws), and whether the quota is exhausted (writes throw).
\<close>

record storage =
  item :: "rawtext option"
  denied :: bool
  full :: bool

definition getItem :: "storage \<Rightarrow> error + rawtext option" where
  "getItem st = (if denied st then Inl SecurityError else Inr (item st))"

definition setItem :: "storage \<Rightarrow> rawtext \<Rightarrow> error + storage" where
  "setItem st t =
     (if denied st then Inl SecurityError
      else if full st then Inl QuotaExceededError
      else Inr (st\<lparr>item := Some t\<rparr>))"

fun parse :: "rawtext \<Rightarrow> error + doc" where
  "parse (Encoded d) = Inr d"
| "parse t = Inl SyntaxError"

definition stringify :: "doc \<Rightarrow> rawtext" where
  "stringify d = Encoded d"

text \<open>
  \<open>loadState\<close>: \<open>try { raw = getItem(KEY); if (!raw) return null; return JSON.parse(raw) }
  catch { return null }\<close>. \<open>None\<close> is \<open>null\<close>.
\<close>

definition loadState :: "storage \<Rightarrow> doc option" where
  "loadState st =
     (case getItem st of
        Inl e \<Rightarrow> None
      | Inr None \<Rightarrow> None
      | Inr (Some Empty) \<Rightarrow> None
      | Inr (Some raw) \<Rightarrow> (case parse raw of Inl e \<Rightarrow> None | Inr d \<Rightarrow> Some d))"

text \<open>
  \<open>saveState(patch)\<close>: \<open>try { current = loadState() || {}; next = {...current, ...patch};
  setItem(KEY, JSON.stringify(next)) } catch { }\<close>. The spread lets the patch win.
  A patch holds JSON values: both hooks save finite numbers, strings, booleans and
  \<open>null\<close>.
\<close>

definition saveState :: "doc \<Rightarrow> storage \<Rightarrow> storage" where
  "saveState patch st =
     (let current = (case loadState st of None \<Rightarrow> Map.empty | Some d \<Rightarrow> d);
          next = current ++ patch
      in case setItem st (stringify next) of Inl e \<Rightarrow> st | Inr st' \<Rightarrow> st')"

section \<open>The timer engine (hooks/usePomodoro)\<close>

text \<open>
  The state of one mounted hook: the seven \<open>useState\<close> cells, the refs \<open>ticking\<close>
  and \<open>lastPerf\<close>, and the notifications dispatched so far (oldest first). The
  session count is a JavaScript number like the others; nothing in the code makes it an
  integer.

  \<open>tick\<close> is created by \<open>useCallback(..., [])\<close> (lines 61-78): React hands back the
  function of the first render for ever, and the \<open>handleSessionComplete\<close> it calls is
  the one of that first render, whose \<open>mode\<close>, \<open>breakMinutes\<close> and \<open>focusMinutes\<close>
  are the values of the first render. The three \<open>seen_\<close> fields hold them.
  \<open>start\<close>, \<open>reset\<close> and \<open>setDurations\<close> list the values they read among their
  dependencies and are called from the current render, so they read the current cells.
\<close>

record engine =
  focusMinutes :: real
  breakMinutes :: real
  mode :: string
  isRunning :: bool
  remainingMs :: real
  sessionCount :: real
  species :: string
  ticking :: bool
  lastPerf :: "real option"
  dispatched :: "string list"
  seen_mode :: string
  seen_focusMinutes :: real
  seen_breakMinutes :: real

text \<open>\<open>totalMs\<close>, the \<open>useMemo\<close> of lines 46-49.\<close>

definition totalMs :: "engine \<Rightarrow> real" where
  "totalMs s = minutesToMs (if mode s = ''focus'' then focusMinutes s else breakMinutes s)"

subsection \<open>Reading the persisted record\<close>

text \<open>
  \<open>persisted?.k ?? d\<close>: the field counts as missing when there is no record, when the
  record has no such key, and when the key holds \<open>null\<close>.
\<close>

definition field :: "doc option \<Rightarrow> string \<Rightarrow> json option" where
  "field p k =
     (case p of None \<Rightarrow> None
      | Some d \<Rightarrow> (case d k of None \<Rightarrow> None | Some JNull \<Rightarrow> None | Some v \<Rightarrow> Some v))"

text \<open>
  Fields are read at the type the record schema gives them. The code itself carries a
  value of another type along as it is (a string \<open>remainingMs\<close> turns into \<open>NaN\<close>
  at line 39, a numeric \<open>mode\<close> is kept), which the typed engine record cannot hold:
  the readers below are meant for records whose fields have their schema types
  (\<open>well_typed\<close>), and every statement on construction from a record is made for
  such records only. Only \<open>clamp\<close> is followed on values of any type.
\<close>

fun as_arg :: "json \<Rightarrow> jsval" where
  "as_arg (JNum x) = Num x"
| "as_arg v = NotNumber"

definition num_field :: "doc option \<Rightarrow> string \<Rightarrow> real option" where
  "num_field p k = (case field p k of Some (JNum x) \<Rightarrow> Some x | _ \<Rightarrow> None)"

definition str_field :: "doc option \<Rightarrow> string \<Rightarrow> string option" where
  "str_field p k = (case field p k of Some (JStr x) \<Rightarrow> Some x | _ \<Rightarrow> None)"

definition bool_field :: "doc option \<Rightarrow> string \<Rightarrow> bool option" where
  "bool_field p k = (case field p k of Some (JBool x) \<Rightarrow> Some x | _ \<Rightarrow> None)"

fun has_type :: "string \<Rightarrow> json option \<Rightarrow> bool" where
  "has_type t None = True"
| "has_type t (Some JNull) = True"
| "has_type t (Some (JNum x)) = (t = ''number'')"
| "has_type t (Some (JStr x)) = (t = ''string'')"
| "has_type t (Some (JBool x)) = (t = ''boolean'')"

definition well_typed :: "doc \<Rightarrow> bool" where
  "well_typed d =
     (has_type ''number'' (d ''focusMinutes'') \<and> has_type ''number'' (d ''breakMinutes'') \<and>
      has_type ''string'' (d ''mode'') \<and> has_type ''boolean'' (d ''isRunning'') \<and>
      has_type ''number'' (d ''remainingMs'') \<and> has_type ''number'' (d ''endAt'') \<and>
      has_type ''number'' (d ''sessionCount'') \<and> has_type ''string'' (d ''species''))"

text \<open>
  \<open>pickSpecies(persisted)\<close>: a persisted species of the list is kept, anything else is
  replaced by \<open>all[Math.floor(Math.random() * all.length)]\<close>. The draw \<open>rnd\<close> of
  \<open>Math.random()\<close> lies in \<open>[0, 1)\<close>; outside of it the index misses the list and
  JavaScript yields \<open>undefined\<close>, written as the empty string.
\<close>

definition all_species :: "string list" where
  "all_species = [''fern'', ''sapling'', ''sprout'', ''bamboo'']"

definition pickSpecies :: "json option \<Rightarrow> real \<Rightarrow> string" where
  "pickSpecies persisted rnd =
     (let i = \<lfloor>rnd * real (length all_species)\<rfloor>;
          drawn = (if 0 \<le> i \<and> i < int (length all_species) then all_species ! nat i else [])
      in case persisted of
           Some (JStr x) \<Rightarrow> if x \<in> set all_species then x else drawn
         | _ \<Rightarrow> drawn)"

subsection \<open>The tick loop bookkeeping\<close>

definition startTicking :: "real \<Rightarrow> engine \<Rightarrow> engine" where
  "startTicking perf s =
     (if ticking s then s else s\<lparr>ticking := True, lastPerf := Some perf\<rparr>)"

definition stopTicking :: "engine \<Rightarrow> engine" where
  "stopTicking s = s\<lparr>ticking := False, lastPerf := None\<rparr>"

subsection \<open>Construction\<close>

text \<open>
  The first render (lines 23-44) followed by the mount effect of lines 183-190.
  \<open>now\<close> is \<open>Date.now()\<close>, \<open>perf\<close> is \<open>performance.now()\<close>, \<open>rnd\<close> is
  \<open>Math.random()\<close>. \<open>persisted?.isRunning && persisted?.endAt\<close> tests truthiness:
  a number is truthy unless it is zero.
\<close>

definition running_with_endAt :: "doc option \<Rightarrow> real option" where
  "running_with_endAt p =
     (if bool_field p ''isRunning'' = Some True
      then (case num_field p ''endAt'' of
              Some e \<Rightarrow> if e \<noteq> 0 then Some e else None
            | None \<Rightarrow> None)
      else None)"

definition initialRemainingMs :: "doc option \<Rightarrow> real \<Rightarrow> real \<Rightarrow> real" where
  "initialRemainingMs p now dflt =
     (case running_with_endAt p of
        Some e \<Rightarrow>
          (let est = max 0 (e - now);
               stored = (case num_field p ''remainingMs'' of Some r \<Rightarrow> r | None \<Rightarrow> dflt)
           in min (max est 0) (max stored est))
      | None \<Rightarrow> (case num_field p ''remainingMs'' of Some r \<Rightarrow> r | None \<Rightarrow> dflt))"

definition firstRender :: "doc option \<Rightarrow> real \<Rightarrow> real \<Rightarrow> engine" where
  "firstRender p now rnd =
     (let f = clamp (case field p ''focusMinutes'' of Some v \<Rightarrow> as_arg v | None \<Rightarrow> Num DEFAULT_FOCUS)
                minFocus maxFocus;
          b = clamp (case field p ''breakMinutes'' of Some v \<Rightarrow> as_arg v | None \<Rightarrow> Num DEFAULT_BREAK)
                minBreak maxBreak;
          m = (case str_field p ''mode'' of Some x \<Rightarrow> x | None \<Rightarrow> ''focus'');
          r = (case bool_field p ''isRunning'' of Some x \<Rightarrow> x | None \<Rightarrow> False);
          c = (case num_field p ''sessionCount'' of Some x \<Rightarrow> x | None \<Rightarrow> 0)
      in \<lparr> focusMinutes = f, breakMinutes = b, mode = m, isRunning = r,
           remainingMs = initialRemainingMs p now (minutesToMs (if m = ''focus'' then f else b)),
           sessionCount = c, species = pickSpecies (field p ''species'') rnd,
           ticking = False, lastPerf = None, dispatched = [],
           seen_mode = m, seen_focusMinutes = f, seen_breakMinutes = b \<rparr>)"

definition mount :: "doc option \<Rightarrow> real \<Rightarrow> real \<Rightarrow> real \<Rightarrow> engine" where
  "mount p now perf rnd =
     (let s = firstRender p now rnd
      in if running_with_endAt p \<noteq> None \<and> remainingMs s > 0
         then startTicking perf (s\<lparr>isRunning := True\<rparr>)
         else s)"

subsection \<open>Operations\<close>

text \<open>
  \<open>handleSessionComplete\<close> (lines 192-207), as \<open>tick\<close> sees it: it reads the values of
  the first render. \<open>perf\<close> is its own reading of \<open>performance.now()\<close>.
\<close>

definition handleSessionComplete :: "real \<Rightarrow> engine \<Rightarrow> engine" where
  "handleSessionComplete perf s =
     (let justCompleted = (if seen_mode s = ''focus'' then ''focus'' else ''break'');
          s1 = s\<lparr>dispatched := dispatched s @ [justCompleted]\<rparr>;
          s2 = (if seen_mode s = ''focus''
                then s1\<lparr>sessionCount := sessionCount s1 + 1, mode := ''break'',
                        remainingMs := minutesToMs (seen_breakMinutes s)\<rparr>
                else s1\<lparr>mode := ''focus'', remainingMs := minutesToMs (seen_focusMinutes s)\<rparr>)
      in s2\<lparr>lastPerf := Some perf\<rparr>)"

text \<open>
  \<open>tick\<close> (lines 61-78). \<open>now\<close> is the reading of \<open>performance.now()\<close> in the tick,
  \<open>perf\<close> the later one inside \<open>handleSessionComplete\<close>. The updater of
  \<open>setRemainingMs\<close> returns \<open>next\<close> and, on completion, calls
  \<open>handleSessionComplete\<close>, which sets \<open>remainingMs\<close> again. React runs an updater
  in one of two ways, and the two differ in which of the two values of \<open>remainingMs\<close>
  lasts.

  \<open>tick\<close> is the frame whose updater runs while the component renders, as it does
  when an update of the component is still pending from the frame or the operation
  before: the cells set from inside the updater are applied after the updater's own
  result, so the countdown of the next interval lasts.
\<close>

definition tick :: "real \<Rightarrow> real \<Rightarrow> engine \<Rightarrow> engine" where
  "tick now perf s =
     (if \<not> ticking s then s
      else
        let prev = (case lastPerf s of None \<Rightarrow> now | Some t \<Rightarrow> t);
            delta = now - prev;
            prevMs = remainingMs s;
            next = max 0 (prevMs - delta);
            s1 = s\<lparr>lastPerf := Some now, remainingMs := next\<rparr>
        in if next = 0 \<and> prevMs > 0 then handleSessionComplete perf s1 else s1)"

text \<open>
  \<open>tick_eager\<close> is the frame whose updater React runs at once inside the call of
  \<open>setRemainingMs\<close>, as it does when nothing is pending (the first frame after a
  rehydrated mount, a frame after one that changed nothing): the \<open>setRemainingMs\<close> of
  \<open>handleSessionComplete\<close> is queued before the updater's own result, so \<open>next\<close>,
  which is 0, lasts. Mode, session count and notification are as in \<open>tick\<close>.
\<close>

definition tick_eager :: "real \<Rightarrow> real \<Rightarrow> engine \<Rightarrow> engine" where
  "tick_eager now perf s =
     (if \<not> ticking s then s
      else
        let prev = (case lastPerf s of None \<Rightarrow> now | Some t \<Rightarrow> t);
            delta = now - prev;
            prevMs = remainingMs s;
            next = max 0 (prevMs - delta);
            s1 = s\<lparr>lastPerf := Some now, remainingMs := next\<rparr>
        in if next = 0 \<and> prevMs > 0
           then (handleSessionComplete perf s1)\<lparr>remainingMs := next\<rparr>
           else s1)"

definition start :: "real \<Rightarrow> engine \<Rightarrow> engine" where
  "start perf s =
     startTicking perf
       (s\<lparr>remainingMs := (if remainingMs s \<le> 0 then totalMs s else remainingMs s),
          isRunning := True\<rparr>)"

definition pause :: "engine \<Rightarrow> engine" where
  "pause s = stopTicking (s\<lparr>isRunning := False\<rparr>)"

definition resume :: "real \<Rightarrow> engine \<Rightarrow> engine" where
  "resume perf s = startTicking perf (s\<lparr>isRunning := True\<rparr>)"

definition reset :: "engine \<Rightarrow> engine" where
  "reset s = (stopTicking (s\<lparr>isRunning := False\<rparr>))\<lparr>remainingMs := totalMs s\<rparr>"

definition setDurations :: "jsval \<Rightarrow> jsval \<Rightarrow> engine \<Rightarrow> engine" where
  "setDurations focusM breakM s =
     (let f = clamp focusM minFocus maxFocus;
          b = clamp breakM minBreak maxBreak
      in s\<lparr>focusMinutes := f, breakMinutes := b,
           remainingMs := (if \<not> isRunning s
                           then minutesToMs (if mode s = ''focus'' then f else b)
                           else remainingMs s)\<rparr>)"

text \<open>The \<open>visibilitychange\<close> listener of lines 111-117.\<close>

definition onVisibility :: "real \<Rightarrow> engine \<Rightarrow> engine" where
  "onVisibility perf s = s\<lparr>lastPerf := Some perf\<rparr>"

subsection \<open>Persistence effects\<close>

text \<open>
  The record assembled by the persistence effect of lines 95-108. \<open>now\<close> and
  \<open>savedAt\<close> are its two readings of \<open>Date.now()\<close>.
\<close>

definition timer_record :: "real \<Rightarrow> real \<Rightarrow> engine \<Rightarrow> doc" where
  "timer_record now savedAt s =
     [''focusMinutes'' \<mapsto> JNum (focusMinutes s),
      ''breakMinutes'' \<mapsto> JNum (breakMinutes s),
      ''isRunning'' \<mapsto> JBool (isRunning s),
      ''mode'' \<mapsto> JStr (mode s),
      ''remainingMs'' \<mapsto> JNum (remainingMs s),
      ''endAt'' \<mapsto> (if isRunning s then JNum (now + remainingMs s) else JNull),
      ''sessionCount'' \<mapsto> JNum (sessionCount s),
      ''species'' \<mapsto> JStr (species s),
      ''savedAt'' \<mapsto> JNum savedAt]"

definition persist :: "real \<Rightarrow> real \<Rightarrow> engine \<Rightarrow> storage \<Rightarrow> storage" where
  "persist now savedAt s st = saveState (timer_record now savedAt s) st"

text \<open>
  The audio preferences effect of useAudio.js lines 43-46:
  \<open>current = loadState() || {}; saveState({...current, soundMuted, volume, ambientOn})\<close>.
\<close>

definition audio_prefs :: "bool \<Rightarrow> real \<Rightarrow> bool \<Rightarrow> doc" where
  "audio_prefs isMuted volume isAmbientOn =
     [''soundMuted'' \<mapsto> JBool isMuted, ''volume'' \<mapsto> JNum volume,
      ''ambientOn'' \<mapsto> JBool isAmbientOn]"

definition persist_audio :: "bool \<Rightarrow> real \<Rightarrow> bool \<Rightarrow> storage \<Rightarrow> storage" where
  "persist_audio isMuted volume isAmbientOn st =
     (let current = (case loadState st of None \<Rightarrow> Map.empty | Some d \<Rightarrow> d)
      in saveState (current ++ audio_prefs isMuted volume isAmbientOn) st)"

subsection \<open>Runs of the engine\<close>

text \<open>
  What can happen to a mounted engine: an animation frame (of either kind), a call of
  one of the public operations, a visibility change. Each carries the clock readings it
  makes.
\<close>

datatype action =
    Tick real real
  | EagerTick real real
  | Start real
  | Pause
  | Resume real
  | Reset
  | SetDurations jsval jsval
  | Visibility real

fun step :: "action \<Rightarrow> engine \<Rightarrow> engine" where
  "step (Tick now perf) s = tick now perf s"
| "step (EagerTick now perf) s = tick_eager now perf s"
| "step (Start perf) s = start perf s"
| "step Pause s = pause s"
| "step (Resume perf) s = resume perf s"
| "step Reset s = reset s"
| "step (SetDurations focusM breakM) s = setDurations focusM breakM s"
| "step (Visibility perf) s = onVisibility perf s"

fun run :: "action list \<Rightarrow> engine \<Rightarrow> engine" where
  "run [] s = s"
| "run (a # as) s = run as (step a s)"

text \<open>
  A frame completes a session when the loop is on and the remaining time goes from a
  positive value to zero: the test \<open>next === 0 && prevMs > 0\<close> of \<open>tick\<close>.
\<close>

definition completes :: "real \<Rightarrow> engine \<Rightarrow> bool" where
  "completes now s =
     (ticking s \<and> remainingMs s > 0 \<and>
      max 0 (remainingMs s - (now - (case lastPerf s of None \<Rightarrow> now | Some t \<Rightarrow> t))) = 0)"

text \<open>
  Steps that keep the countdown under the total of the active mode: every step but a
  change of durations while running, a frame that completes a session, and a frame whose
  clock reading lies before the previous one (\<open>performance.now()\<close> never does that).
\<close>

fun calm :: "action \<Rightarrow> engine \<Rightarrow> bool" where
  "calm (Tick now perf) s =
     (\<not> completes now s \<and> (case lastPerf s of None \<Rightarrow> True | Some t \<Rightarrow> t \<le> now))"
| "calm (EagerTick now perf) s =
     (\<not> completes now s \<and> (case lastPerf s of None \<Rightarrow> True | Some t \<Rightarrow> t \<le> now))"
| "calm (SetDurations focusM breakM) s = (\<not> isRunning s)"
| "calm a s = True"

fun calm_run :: "action list \<Rightarrow> engine \<Rightarrow> bool" where
  "calm_run [] s = True"
| "calm_run (a # as) s = (calm a s \<and> calm_run as (step a s))"

text \<open>
  Records the engine is constructed from in the statements below: none, or one whose
  fields have their schema types and whose \<open>remainingMs\<close> is not negative.
\<close>

definition sane_record :: "doc option \<Rightarrow> bool" where
  "sane_record p =
     (case p of None \<Rightarrow> True
      | Some d \<Rightarrow> well_typed d \<and>
          (case d ''remainingMs'' of Some (JNum r) \<Rightarrow> 0 \<le> r | _ \<Rightarrow> True))"

fun is_frame :: "action \<Rightarrow> bool" where
  "is_frame (Tick now perf) = True"
| "is_frame (EagerTick now perf) = True"
| "is_frame (Visibility perf) = True"
| "is_frame a = False"

subsection \<open>Concrete records and runs\<close>

text \<open>A record the engine itself wrote while idle in a break.\<close>

definition break_record :: doc where
  "break_record =
     [''focusMinutes'' \<mapsto> JNum 25, ''breakMinutes'' \<mapsto> JNum 5,
      ''isRunning'' \<mapsto> JBool False, ''mode'' \<mapsto> JStr ''break'',
      ''remainingMs'' \<mapsto> JNum 300000, ''endAt'' \<mapsto> JNull,
      ''sessionCount'' \<mapsto> JNum 1, ''species'' \<mapsto> JStr ''fern'',
      ''savedAt'' \<mapsto> JNum 0]"

text \<open>Records of a running session, read at different times.\<close>

definition drift_record :: doc where
  "drift_record =
     [''isRunning'' \<mapsto> JBool True, ''endAt'' \<mapsto> JNum 50000, ''remainingMs'' \<mapsto> JNum 20000]"

definition epoch_record :: doc where
  "epoch_record =
     [''isRunning'' \<mapsto> JBool True, ''endAt'' \<mapsto> JNum 0, ''remainingMs'' \<mapsto> JNum 20000]"

definition expired_record :: doc where
  "expired_record =
     [''isRunning'' \<mapsto> JBool True, ''endAt'' \<mapsto> JNum 1000, ''remainingMs'' \<mapsto> JNum 20000]"

definition long_record :: doc where
  "long_record = [''focusMinutes'' \<mapsto> JNum 5, ''remainingMs'' \<mapsto> JNum 1500000]"

definition audio_record :: doc where
  "audio_record =
     [''soundMuted'' \<mapsto> JBool True, ''volume'' \<mapsto> JNum (1 / 2), ''ambientOn'' \<mapsto> JBool True,
      ''mode'' \<mapsto> JStr ''break'']"

definition working_storage :: storage where
  "working_storage = \<lparr>item = Some (Encoded audio_record), denied = False, full = False\<rparr>"

definition no_storage :: storage where
  "no_storage = \<lparr>item = Some Garbled, denied = True, full = True\<rparr>"

definition calm_day :: "action list" where
  "calm_day =
     [SetDurations (Num 10) NaN, Start 0, Tick 16 16, Visibility 40, Tick 1000 1000,
      Pause, Resume 2000, EagerTick 3000 3000, Reset, Start 5000, Tick 6000 6000]"

definition nonneg_config :: "engine \<Rightarrow> bool" where
  "nonneg_config s =
     (0 \<le> focusMinutes s \<and> 0 \<le> breakMinutes s \<and>
      0 \<le> seen_focusMinutes s \<and> 0 \<le> seen_breakMinutes s)"

section \<open>Basic facts\<close>

lemmas limits_defs =
  DEFAULT_FOCUS_def DEFAULT_BREAK_def minFocus_def maxFocus_def minBreak_def maxBreak_def

lemmas read_defs = field_def num_field_def str_field_def bool_field_def running_with_endAt_def

lemmas op_defs =
  tick_def tick_eager_def handleSessionComplete_def start_def pause_def resume_def reset_def
  setDurations_def onVisibility_def startTicking_def stopTicking_def totalMs_def

lemma clamp_bounds: "lo \<le> hi \<Longrightarrow> lo \<le> clamp n lo hi \<and> clamp n lo hi \<le> hi"
  by (simp add: clamp_def)

lemma clamp_not_finite: "\<not> isFinite n \<Longrightarrow> lo \<le> hi \<Longrightarrow> clamp n lo hi = lo"
  by (cases n) (simp_all add: clamp_def)

lemma clamp_inside: "lo \<le> x \<Longrightarrow> x \<le> hi \<Longrightarrow> clamp (Num x) lo hi = x"
  by (simp add: clamp_def)

lemma minutesToMs_nonneg: "0 \<le> m \<Longrightarrow> 0 \<le> minutesToMs m"
proof -
  assume "0 \<le> m"
  then have "round (0::real) \<le> round (m * 60 * 1000)"
    by (intro round_mono) simp
  then show ?thesis
    by (simp add: minutesToMs_def)
qed

lemma mount_None:
  "mount None now perf rnd =
     \<lparr> focusMinutes = 25, breakMinutes = 5, mode = ''focus'', isRunning = False,
       remainingMs = 1500000, sessionCount = 0, species = pickSpecies None rnd,
       ticking = False, lastPerf = None, dispatched = [],
       seen_mode = ''focus'', seen_focusMinutes = 25, seen_breakMinutes = 5 \<rparr>"
  by (simp add: mount_def firstRender_def read_defs
      initialRemainingMs_def clamp_def limits_defs minutesToMs_def Let_def)

lemma mount_break_record:
  "mount (Some break_record) now perf rnd =
     \<lparr> focusMinutes = 25, breakMinutes = 5, mode = ''break'', isRunning = False,
       remainingMs = 300000, sessionCount = 1, species = ''fern'',
       ticking = False, lastPerf = None, dispatched = [],
       seen_mode = ''break'', seen_focusMinutes = 25, seen_breakMinutes = 5 \<rparr>"
  by (simp add: mount_def firstRender_def read_defs break_record_def pickSpecies_def
      all_species_def initialRemainingMs_def clamp_def limits_defs minutesToMs_def Let_def)

lemma running_with_endAt_Some:
  "d ''isRunning'' = Some (JBool True) \<Longrightarrow> d ''endAt'' = Some (JNum e) \<Longrightarrow> e \<noteq> 0 \<Longrightarrow>
   running_with_endAt (Some d) = Some e"
  by (simp add: read_defs)

lemma remainingMs_mount:
  "remainingMs (mount p now perf rnd) = remainingMs (firstRender p now rnd)"
  by (simp add: mount_def startTicking_def Let_def)

lemma tick_off: "\<not> ticking s \<Longrightarrow> tick now perf s = s"
  by (simp add: tick_def)

lemma tick_eager_off: "\<not> ticking s \<Longrightarrow> tick_eager now perf s = s"
  by (simp add: tick_eager_def)

lemma tick_eager_calm: "\<not> completes now s \<Longrightarrow> tick_eager now perf s = tick now perf s"
  by (auto simp: tick_eager_def tick_def completes_def Let_def)

subsection \<open>The store\<close>

lemma loadState_denied: "denied st \<Longrightarrow> loadState st = None"
  by (simp add: loadState_def getItem_def)

lemma loadState_ok: "\<not> denied st \<Longrightarrow> item st = Some (Encoded d) \<Longrightarrow> loadState st = Some d"
  by (simp add: loadState_def getItem_def)

lemma loadState_absent:
  "item st = None \<or> item st = Some Empty \<or> item st = Some Garbled \<Longrightarrow> loadState st = None"
  by (auto simp: loadState_def getItem_def split: sum.splits)

lemma saveState_ok:
  "\<not> denied st \<Longrightarrow> \<not> full st \<Longrightarrow>
   saveState patch st =
     st\<lparr>item := Some (Encoded ((case loadState st of None \<Rightarrow> Map.empty | Some d \<Rightarrow> d) ++ patch))\<rparr>"
  by (simp add: saveState_def setItem_def stringify_def Let_def)

lemma saveState_fails: "denied st \<or> full st \<Longrightarrow> saveState patch st = st"
  by (auto simp: saveState_def setItem_def Let_def)

lemma load_after_save:
  "\<not> denied st \<Longrightarrow> \<not> full st \<Longrightarrow>
   loadState (saveState patch st) =
     Some ((case loadState st of None \<Rightarrow> Map.empty | Some d \<Rightarrow> d) ++ patch)"
  by (simp add: saveState_ok loadState_def getItem_def)

lemma timer_record_audio_keys:
  "timer_record now savedAt s ''soundMuted'' = None \<and>
   timer_record now savedAt s ''volume'' = None \<and>
   timer_record now savedAt s ''ambientOn'' = None"
  by (simp add: timer_record_def)

lemma audio_prefs_other:
  "k \<notin> {''soundMuted'', ''volume'', ''ambientOn''} \<Longrightarrow> audio_prefs m v a k = None"
  by (simp add: audio_prefs_def)

subsection \<open>The countdown under runs\<close>

lemma config_mount:
  "minFocus \<le> focusMinutes (mount p now perf rnd) \<and>
   focusMinutes (mount p now perf rnd) \<le> maxFocus \<and>
   minBreak \<le> breakMinutes (mount p now perf rnd) \<and>
   breakMinutes (mount p now perf rnd) \<le> maxBreak \<and>
   seen_focusMinutes (mount p now perf rnd) = focusMinutes (mount p now perf rnd) \<and>
   seen_breakMinutes (mount p now perf rnd) = breakMinutes (mount p now perf rnd)"
  using clamp_bounds [of minFocus maxFocus] clamp_bounds [of minBreak maxBreak]
  by (simp add: mount_def firstRender_def startTicking_def Let_def limits_defs)

lemma nonneg_config_mount: "nonneg_config (mount p now perf rnd)"
  using config_mount [of p now perf rnd] by (simp add: nonneg_config_def limits_defs)

lemma totalMs_nonneg: "nonneg_config s \<Longrightarrow> 0 \<le> totalMs s"
  by (simp add: totalMs_def nonneg_config_def minutesToMs_nonneg)

lemma initialRemainingMs_nonneg:
  assumes "sane_record p" and "0 \<le> dflt"
  shows "0 \<le> initialRemainingMs p now dflt"
proof -
  have r: "\<And>r. num_field p ''remainingMs'' = Some r \<Longrightarrow> 0 \<le> r"
    using assms(1)
    by (auto simp: sane_record_def read_defs split: option.splits json.splits)
  show ?thesis
    using r assms(2)
    by (auto simp: initialRemainingMs_def Let_def split: option.splits)
qed

lemma remainingMs_mount_nonneg:
  assumes "sane_record p"
  shows "0 \<le> remainingMs (mount p now perf rnd)"
proof -
  have c: "nonneg_config (firstRender p now rnd)"
    using nonneg_config_mount [of p now perf rnd]
    by (simp add: mount_def nonneg_config_def startTicking_def Let_def split: if_splits)
  have "remainingMs (firstRender p now rnd) =
          initialRemainingMs p now (totalMs (firstRender p now rnd))"
    by (simp add: firstRender_def totalMs_def Let_def)
  then show ?thesis
    using initialRemainingMs_nonneg [OF assms totalMs_nonneg [OF c]]
    by (simp add: remainingMs_mount)
qed

lemma step_nonneg:
  assumes "nonneg_config s" and "0 \<le> remainingMs s"
  shows "nonneg_config (step a s) \<and> 0 \<le> remainingMs (step a s)"
proof (cases a)
  case (Tick now perf)
  then show ?thesis
    using assms
    by (simp add: tick_def handleSessionComplete_def nonneg_config_def minutesToMs_nonneg Let_def)
next
  case (EagerTick now perf)
  then show ?thesis
    using assms
    by (simp add: tick_eager_def handleSessionComplete_def nonneg_config_def Let_def)
next
  case (Start perf)
  then show ?thesis
    using assms totalMs_nonneg [OF assms(1)]
    by (simp add: start_def startTicking_def nonneg_config_def)
next
  case Pause
  then show ?thesis
    using assms by (simp add: pause_def stopTicking_def nonneg_config_def)
next
  case (Resume perf)
  then show ?thesis
    using assms by (simp add: resume_def startTicking_def nonneg_config_def)
next
  case Reset
  then show ?thesis
    using assms totalMs_nonneg [OF assms(1)]
    by (simp add: reset_def stopTicking_def nonneg_config_def)
next
  case (SetDurations focusM breakM)
  have f: "0 \<le> clamp focusM minFocus maxFocus"
    using clamp_bounds [of minFocus maxFocus focusM] by (simp add: limits_defs)
  have b: "0 \<le> clamp breakM minBreak maxBreak"
    using clamp_bounds [of minBreak maxBreak breakM] by (simp add: limits_defs)
  show ?thesis
    using SetDurations assms f b
    by (simp add: setDurations_def nonneg_config_def minutesToMs_nonneg Let_def)
next
  case (Visibility perf)
  then show ?thesis
    using assms by (simp add: onVisibility_def nonneg_config_def)
qed

lemma run_nonneg:
  "nonneg_config s \<Longrightarrow> 0 \<le> remainingMs s \<Longrightarrow> 0 \<le> remainingMs (run acts s)"
proof (induction acts arbitrary: s)
  case Nil
  then show ?case by simp
next
  case (Cons a acts)
  then show ?case
    using step_nonneg [of s a] by simp
qed

lemma tick_calm:
  assumes "0 \<le> remainingMs s" and "remainingMs s \<le> totalMs s" and "calm (Tick now perf) s"
  shows "0 \<le> remainingMs (tick now perf s) \<and> remainingMs (tick now perf s) \<le> totalMs (tick now perf s)"
proof (cases "ticking s")
  case False
  then show ?thesis
    using assms by (simp add: tick_def)
next
  case True
  let ?delta = "now - (case lastPerf s of None \<Rightarrow> now | Some t \<Rightarrow> t)"
  have d: "0 \<le> ?delta"
    using assms(3) by (simp split: option.splits)
  have nc: "\<not> (max 0 (remainingMs s - ?delta) = 0 \<and> remainingMs s > 0)"
    using assms(3) True by (auto simp: completes_def)
  have st: "tick now perf s = s\<lparr>lastPerf := Some now, remainingMs := max 0 (remainingMs s - ?delta)\<rparr>"
    using True nc by (auto simp: tick_def Let_def)
  have tot: "totalMs (tick now perf s) = totalMs s"
    unfolding st by (simp add: totalMs_def)
  have rem: "remainingMs (tick now perf s) = max 0 (remainingMs s - ?delta)"
    unfolding st by simp
  show ?thesis
    unfolding tot rem using assms(1,2) d by linarith
qed

lemma step_calm:
  assumes "0 \<le> remainingMs s" and "remainingMs s \<le> totalMs s" and "calm a s"
  shows "0 \<le> remainingMs (step a s) \<and> remainingMs (step a s) \<le> totalMs (step a s)"
proof (cases a)
  case (Tick now perf)
  then show ?thesis
    using tick_calm [OF assms(1,2), of now perf] assms(3) by simp
next
  case (EagerTick now perf)
  then have c: "calm (Tick now perf) s" and n: "\<not> completes now s"
    using assms(3) by simp_all
  show ?thesis
    using EagerTick tick_calm [OF assms(1,2) c] tick_eager_calm [OF n, of perf] by simp
next
  case (Start perf)
  then show ?thesis
    using assms by (auto simp: start_def startTicking_def totalMs_def split: if_splits)
next
  case Pause
  then show ?thesis
    using assms by (auto simp: pause_def stopTicking_def totalMs_def split: if_splits)
next
  case (Resume perf)
  then show ?thesis
    using assms by (auto simp: resume_def startTicking_def totalMs_def split: if_splits)
next
  case Reset
  then show ?thesis
    using assms by (auto simp: reset_def stopTicking_def totalMs_def split: if_splits)
next
  case (SetDurations focusM breakM)
  have f: "0 \<le> clamp focusM minFocus maxFocus"
    using clamp_bounds [of minFocus maxFocus focusM] by (simp add: limits_defs)
  have b: "0 \<le> clamp breakM minBreak maxBreak"
    using clamp_bounds [of minBreak maxBreak breakM] by (simp add: limits_defs)
  show ?thesis
    using SetDurations assms(3) f b
    by (simp add: setDurations_def totalMs_def minutesToMs_nonneg Let_def)
next
  case (Visibility perf)
  then show ?thesis
    using assms by (auto simp: onVisibility_def totalMs_def split: if_splits)
qed

lemma run_calm:
  "0 \<le> remainingMs s \<Longrightarrow> remainingMs s \<le> totalMs s \<Longrightarrow> calm_run acts s \<Longrightarrow>
   0 \<le> remainingMs (run acts s) \<and> remainingMs (run acts s) \<le> totalMs (run acts s)"
proof (induction acts arbitrary: s)
  case Nil
  then show ?case by simp
next
  case (Cons a acts)
  then show ?case
    using step_calm [of s a] by simp
qed

lemma frames_off:
  "\<not> ticking s \<Longrightarrow> list_all is_frame acts \<Longrightarrow>
   remainingMs (run acts s) = remainingMs s \<and> isRunning (run acts s) = isRunning s \<and>
   \<not> ticking (run acts s)"
proof (induction acts arbitrary: s)
  case Nil
  then show ?case by simp
next
  case (Cons a acts)
  then show ?case
    by (cases a) (simp_all add: tick_off tick_eager_off onVisibility_def)
qed

section \<open>The claims\<close>

text \<open>
  Claim C1, as amended. In every state reached from construction by any run of frames,
  operations and visibility changes, \<open>remainingMs\<close> is not negative, provided the
  persisted record is missing or has well-typed fields and a \<open>remainingMs\<close> that is
  absent or not negative. Construction without a record starts the countdown at
  \<open>totalMs(mode)\<close>, and from any state with \<open>0 \<le> remainingMs \<le> totalMs(mode)\<close>
  both bounds are kept by every run of \<open>start\<close>, \<open>pause\<close>, \<open>resume\<close>, \<open>reset\<close>,
  \<open>setDurations\<close> on an engine that is not running, visibility changes, and frames
  that do not complete a session and whose clock does not run backwards.
\<close>

theorem remainingMs_bounds:
  "(sane_record p \<longrightarrow> 0 \<le> remainingMs (run acts (mount p now perf rnd))) \<and>
   remainingMs (mount None now perf rnd) = totalMs (mount None now perf rnd) \<and>
   (0 \<le> remainingMs s \<and> remainingMs s \<le> totalMs s \<and> calm_run acts s \<longrightarrow>
      0 \<le> remainingMs (run acts s) \<and> remainingMs (run acts s) \<le> totalMs (run acts s))"
  using run_nonneg [OF nonneg_config_mount remainingMs_mount_nonneg, of p acts now perf rnd]
    run_calm [of s acts]
  by (simp add: mount_None totalMs_def minutesToMs_def)

text \<open>
  The record \<open>break_record\<close> and the run \<open>calm_day\<close> from a fresh engine meet the
  hypotheses of the theorem.
\<close>

theorem remainingMs_bounds_witness:
  "sane_record (Some break_record) \<and> calm_run calm_day (mount None 0 0 0) \<and>
   0 \<le> remainingMs (run calm_day (mount (Some break_record) 0 0 0)) \<and>
   0 \<le> remainingMs (run calm_day (mount None 0 0 0)) \<and>
   remainingMs (run calm_day (mount None 0 0 0)) \<le> totalMs (run calm_day (mount None 0 0 0))"
proof -
  have p: "sane_record (Some break_record)"
    by (simp add: sane_record_def well_typed_def break_record_def)
  have c: "calm_run calm_day (mount None 0 0 0)"
    by (simp add: calm_day_def mount_None op_defs completes_def minutesToMs_def Let_def
        limits_defs clamp_def)
  have i: "0 \<le> remainingMs (mount None 0 0 0) \<and>
           remainingMs (mount None 0 0 0) \<le> totalMs (mount None 0 0 0)"
    by (simp add: mount_None totalMs_def minutesToMs_def)
  note t = remainingMs_bounds [of "Some break_record" calm_day 0 0 0 "mount None 0 0 0"]
  from t p c i show ?thesis
    by blast
qed

text \<open>
  Claim C1 as stated fails. Shortening the durations of a running engine leaves the
  countdown of 1500000 ms above the new total of 300000 ms; and construction adopts a
  persisted \<open>remainingMs\<close> of 1500000 ms next to a persisted focus duration of 5
  minutes.
\<close>

theorem remainingMs_bound_broken:
  "\<not> remainingMs (run [Start 0, SetDurations (Num 5) (Num 1)] (mount None 0 0 0))
       \<le> totalMs (run [Start 0, SetDurations (Num 5) (Num 1)] (mount None 0 0 0)) \<and>
   \<not> remainingMs (mount (Some long_record) 0 0 0) \<le> totalMs (mount (Some long_record) 0 0 0)"
  by (simp add: mount_None op_defs minutesToMs_def Let_def limits_defs clamp_def
      mount_def firstRender_def read_defs long_record_def initialRemainingMs_def)

text \<open>
  Claim C2. The claim asks that a frame which ends a focus interval counts the session,
  switches to the break, restarts the countdown at \<open>totalMs(Break)\<close> and notifies
  \<open>focus\<close>. The transition that \<open>tick\<close> runs is chosen by the mode of the first
  render. An engine constructed from \<open>break_record\<close> is started and runs through its
  break (first frame): it is then in focus mode, running, with 1500000 ms left and a
  session count of 1. The second frame, 1500000 ms later, ends that focus interval: the
  mode stays
  \<open>focus\<close>, the session count stays 1, and the second notification is \<open>break\<close>.
\<close>

theorem focus_completion_after_break_start:
  "mode (run [Start 0, Tick 300000 300000] (mount (Some break_record) 0 0 0)) = ''focus'' \<and>
   isRunning (run [Start 0, Tick 300000 300000] (mount (Some break_record) 0 0 0)) \<and>
   ticking (run [Start 0, Tick 300000 300000] (mount (Some break_record) 0 0 0)) \<and>
   remainingMs (run [Start 0, Tick 300000 300000] (mount (Some break_record) 0 0 0)) = 1500000 \<and>
   sessionCount (run [Start 0, Tick 300000 300000] (mount (Some break_record) 0 0 0)) = 1 \<and>
   lastPerf (run [Start 0, Tick 300000 300000] (mount (Some break_record) 0 0 0)) = Some 300000 \<and>
   mode (run [Start 0, Tick 300000 300000, Tick 1800000 1800000]
           (mount (Some break_record) 0 0 0)) = ''focus'' \<and>
   sessionCount (run [Start 0, Tick 300000 300000, Tick 1800000 1800000]
           (mount (Some break_record) 0 0 0)) = 1 \<and>
   dispatched (run [Start 0, Tick 300000 300000, Tick 1800000 1800000]
           (mount (Some break_record) 0 0 0)) = [''break'', ''break'']"
  by (simp add: mount_break_record op_defs minutesToMs_def Let_def)

text \<open>
  Claim C3. The claim asks that a frame which ends a break switches to focus, leaves the
  session count alone and notifies \<open>break\<close>. A fresh engine is started and runs through
  its focus interval (first frame): it is then in break mode, running, with 300000 ms
  left and a session count of 1. The second frame, 300000 ms later, ends that break: the
  mode stays \<open>break\<close>, the session count becomes 2, and the second notification is
  \<open>focus\<close>.
\<close>

theorem break_completion_after_focus_start:
  "mode (run [Start 0, Tick 1500000 1500000] (mount None 0 0 0)) = ''break'' \<and>
   isRunning (run [Start 0, Tick 1500000 1500000] (mount None 0 0 0)) \<and>
   ticking (run [Start 0, Tick 1500000 1500000] (mount None 0 0 0)) \<and>
   remainingMs (run [Start 0, Tick 1500000 1500000] (mount None 0 0 0)) = 300000 \<and>
   sessionCount (run [Start 0, Tick 1500000 1500000] (mount None 0 0 0)) = 1 \<and>
   lastPerf (run [Start 0, Tick 1500000 1500000] (mount None 0 0 0)) = Some 1500000 \<and>
   mode (run [Start 0, Tick 1500000 1500000, Tick 1800000 1800000] (mount None 0 0 0)) = ''break'' \<and>
   sessionCount (run [Start 0, Tick 1500000 1500000, Tick 1800000 1800000] (mount None 0 0 0)) = 2 \<and>
   dispatched (run [Start 0, Tick 1500000 1500000, Tick 1800000 1800000] (mount None 0 0 0))
     = [''focus'', ''focus'']"
  by (simp add: mount_None op_defs minutesToMs_def Let_def)

text \<open>
  Claim C4. The claim asks that the remaining time adopted from a record of a running
  session never exceeds the persisted \<open>remainingMs\<close>, and the comments of lines
  35-37 say that the stored value limits the drift. In line 39 the stored value never
  changes the result. \<open>drift_record\<close> was saved with 20000 ms left and an \<open>endAt\<close>
  of 50000: constructed at \<open>now = 0\<close> the engine runs with 50000 ms left.
\<close>

theorem rehydrated_remainingMs_exceeds_persisted:
  "well_typed drift_record \<and>
   drift_record ''isRunning'' = Some (JBool True) \<and>
   drift_record ''endAt'' = Some (JNum 50000) \<and>
   drift_record ''remainingMs'' = Some (JNum 20000) \<and>
   isRunning (mount (Some drift_record) 0 0 0) \<and>
   ticking (mount (Some drift_record) 0 0 0) \<and>
   remainingMs (mount (Some drift_record) 0 0 0) = 50000"
  by (simp add: mount_def firstRender_def initialRemainingMs_def read_defs startTicking_def
      well_typed_def drift_record_def Let_def)

text \<open>
  Claim C5. Whatever the two arguments are (out of range, \<open>NaN\<close>, infinite, not a
  number), \<open>setDurations\<close> leaves \<open>focusMinutes\<close> in \<open>[5, 120]\<close> and
  \<open>breakMinutes\<close> in \<open>[1, 60]\<close>; an argument that is not a finite number gives the
  lower bound of its range.
\<close>

theorem setDurations_within_limits:
  "5 \<le> focusMinutes (setDurations focusM breakM s) \<and>
   focusMinutes (setDurations focusM breakM s) \<le> 120 \<and>
   1 \<le> breakMinutes (setDurations focusM breakM s) \<and>
   breakMinutes (setDurations focusM breakM s) \<le> 60 \<and>
   (\<not> isFinite focusM \<longrightarrow> focusMinutes (setDurations focusM breakM s) = 5) \<and>
   (\<not> isFinite breakM \<longrightarrow> breakMinutes (setDurations focusM breakM s) = 1)"
proof -
  have f: "focusMinutes (setDurations focusM breakM s) = clamp focusM 5 120"
    by (simp add: setDurations_def Let_def limits_defs)
  have b: "breakMinutes (setDurations focusM breakM s) = clamp breakM 1 60"
    by (simp add: setDurations_def Let_def limits_defs)
  show ?thesis
    unfolding f b
    using clamp_bounds [of 5 120 focusM] clamp_bounds [of 1 60 breakM]
      clamp_not_finite [of focusM 5 120] clamp_not_finite [of breakM 1 60]
    by simp
qed

theorem setDurations_within_limits_witness:
  "\<not> isFinite NaN \<and> \<not> isFinite PosInf \<and>
   focusMinutes (setDurations NaN PosInf (mount None 0 0 0)) = 5 \<and>
   breakMinutes (setDurations NaN PosInf (mount None 0 0 0)) = 1"
  using setDurations_within_limits [of NaN PosInf "mount None 0 0 0"]
  by simp

text \<open>
  Claim C6. \<open>setDurations\<close> stores the clamped durations. On an engine that is not
  running it sets \<open>remainingMs\<close> to \<open>minutesToMs\<close> of the new duration of the
  current mode, which is the new \<open>totalMs\<close>; on a running engine it leaves
  \<open>remainingMs\<close> as it is. Mode, running flag, session count and species are unchanged.
\<close>

theorem setDurations_frame:
  "focusMinutes (setDurations focusM breakM s) = clamp focusM minFocus maxFocus \<and>
   breakMinutes (setDurations focusM breakM s) = clamp breakM minBreak maxBreak \<and>
   remainingMs (setDurations focusM breakM s) =
     (if isRunning s then remainingMs s
      else minutesToMs (if mode s = ''focus'' then clamp focusM minFocus maxFocus
                        else clamp breakM minBreak maxBreak)) \<and>
   totalMs (setDurations focusM breakM s) =
     minutesToMs (if mode s = ''focus'' then clamp focusM minFocus maxFocus
                  else clamp breakM minBreak maxBreak) \<and>
   mode (setDurations focusM breakM s) = mode s \<and>
   isRunning (setDurations focusM breakM s) = isRunning s \<and>
   sessionCount (setDurations focusM breakM s) = sessionCount s \<and>
   species (setDurations focusM breakM s) = species s"
  by (simp add: setDurations_def totalMs_def Let_def)

text \<open>
  Claim C7. When the store accepts the write, the record that \<open>loadState\<close> returns
  after the persistence effect has saved an engine state holds that state's
  \<open>focusMinutes\<close>, \<open>breakMinutes\<close>, \<open>mode\<close>, \<open>species\<close> and \<open>sessionCount\<close>,
  whatever the store held before.
\<close>

theorem persist_round_trip:
  assumes "\<not> denied st" and "\<not> full st"
  shows "field (loadState (persist now savedAt s st)) ''focusMinutes'' = Some (JNum (focusMinutes s)) \<and>
         field (loadState (persist now savedAt s st)) ''breakMinutes'' = Some (JNum (breakMinutes s)) \<and>
         field (loadState (persist now savedAt s st)) ''mode'' = Some (JStr (mode s)) \<and>
         field (loadState (persist now savedAt s st)) ''species'' = Some (JStr (species s)) \<and>
         field (loadState (persist now savedAt s st)) ''sessionCount'' = Some (JNum (sessionCount s))"
proof -
  have "loadState (persist now savedAt s st) =
          Some ((case loadState st of None \<Rightarrow> Map.empty | Some d \<Rightarrow> d) ++ timer_record now savedAt s)"
    unfolding persist_def using assms by (rule load_after_save)
  then show ?thesis
    by (simp add: field_def timer_record_def)
qed

theorem persist_round_trip_witness:
  "\<not> denied working_storage \<and> \<not> full working_storage \<and>
   field (loadState (persist 0 0 (mount None 0 0 0) working_storage)) ''mode'' = Some (JStr ''focus'') \<and>
   field (loadState (persist 0 0 (mount None 0 0 0) working_storage)) ''focusMinutes'' = Some (JNum 25)"
  using persist_round_trip [of working_storage 0 0 "mount None 0 0 0"]
  by (simp add: working_storage_def mount_None)

text \<open>
  Claim C8. \<open>loadState\<close> and \<open>saveState\<close> have no error result. \<open>loadState\<close>
  returns \<open>null\<close> when access to the store is refused, when nothing or the empty text is
  stored, and when the stored text does not parse; construction from \<open>null\<close> takes the
  defaults (25 and 5 minutes, mode focus, session count 0, not running, a full focus
  countdown); and when the write throws, \<open>saveState\<close> returns with the store as it was.
\<close>

theorem storage_errors_swallowed:
  "(denied st \<longrightarrow> loadState st = None) \<and>
   (item st = None \<longrightarrow> loadState st = None) \<and>
   (item st = Some Empty \<longrightarrow> loadState st = None) \<and>
   (item st = Some Garbled \<longrightarrow> loadState st = None) \<and>
   (loadState st = None \<longrightarrow>
      focusMinutes (mount (loadState st) now perf rnd) = 25 \<and>
      breakMinutes (mount (loadState st) now perf rnd) = 5 \<and>
      mode (mount (loadState st) now perf rnd) = ''focus'' \<and>
      sessionCount (mount (loadState st) now perf rnd) = 0 \<and>
      \<not> isRunning (mount (loadState st) now perf rnd) \<and>
      remainingMs (mount (loadState st) now perf rnd) = 1500000) \<and>
   (\<forall>t e. setItem st t = Inl e \<longrightarrow> saveState patch st = st)"
proof -
  have "\<And>t e. setItem st t = Inl e \<Longrightarrow> saveState patch st = st"
    by (rule saveState_fails) (simp add: setItem_def split: if_splits)
  then show ?thesis
    using loadState_denied [of st] loadState_absent [of st]
    by (simp add: mount_None)
qed

theorem storage_errors_swallowed_witness:
  "denied no_storage \<and>
   setItem no_storage (stringify (timer_record 0 0 (mount None 0 0 0))) = Inl SecurityError \<and>
   loadState no_storage = None \<and>
   focusMinutes (mount (loadState no_storage) 0 0 0) = 25 \<and>
   saveState (timer_record 0 0 (mount None 0 0 0)) no_storage = no_storage"
proof -
  have d: "denied no_storage"
    by (simp add: no_storage_def)
  have w: "setItem no_storage (stringify (timer_record 0 0 (mount None 0 0 0))) = Inl SecurityError"
    by (simp add: setItem_def no_storage_def)
  note t = storage_errors_swallowed [of no_storage 0 0 0 "timer_record 0 0 (mount None 0 0 0)"]
  from t d w show ?thesis
    by blast
qed

text \<open>
  Claim C9, as amended. From a well-typed persisted record with \<open>isRunning\<close> true and
  an \<open>endAt\<close> that is present, not zero and not after \<open>now\<close>, the constructed
  engine reports \<open>isRunning\<close> with \<open>remainingMs = 0\<close> and its tick loop is off: a
  frame of either kind changes nothing, and after any sequence of frames and visibility
  changes the engine still reports a running session at zero with the loop off.
\<close>

theorem rehydrated_expired_stays_at_zero:
  assumes "well_typed d"
    and "d ''isRunning'' = Some (JBool True)" and "d ''endAt'' = Some (JNum e)"
    and "e \<noteq> 0" and "e \<le> now"
  shows "isRunning (mount (Some d) now perf rnd) \<and>
         remainingMs (mount (Some d) now perf rnd) = 0 \<and>
         \<not> ticking (mount (Some d) now perf rnd) \<and>
         (\<forall>t u. tick t u (mount (Some d) now perf rnd) = mount (Some d) now perf rnd) \<and>
         (\<forall>t u. tick_eager t u (mount (Some d) now perf rnd) = mount (Some d) now perf rnd) \<and>
         (\<forall>acts. list_all is_frame acts \<longrightarrow>
            remainingMs (run acts (mount (Some d) now perf rnd)) = 0 \<and>
            isRunning (run acts (mount (Some d) now perf rnd)) \<and>
            \<not> ticking (run acts (mount (Some d) now perf rnd)))"
proof -
  let ?s = "mount (Some d) now perf rnd"
  have rw: "running_with_endAt (Some d) = Some e"
    by (rule running_with_endAt_Some [OF assms(2-4)])
  have r0: "remainingMs (firstRender (Some d) now rnd) = 0"
    using rw assms(5) by (simp add: firstRender_def initialRemainingMs_def Let_def)
  have m: "?s = firstRender (Some d) now rnd"
    using r0 by (simp add: mount_def Let_def)
  have run: "isRunning ?s"
    using assms(2) unfolding m by (simp add: firstRender_def read_defs Let_def)
  have rem: "remainingMs ?s = 0"
    unfolding m by (rule r0)
  have off: "\<not> ticking ?s"
    unfolding m by (simp add: firstRender_def Let_def)
  show ?thesis
    using run rem off tick_off [OF off] tick_eager_off [OF off] frames_off [OF off] by simp
qed

theorem rehydrated_expired_stays_at_zero_witness:
  "well_typed expired_record \<and>
   isRunning (mount (Some expired_record) 11000 0 0) \<and>
   remainingMs (mount (Some expired_record) 11000 0 0) = 0 \<and>
   \<not> ticking (mount (Some expired_record) 11000 0 0) \<and>
   remainingMs (run [Tick 16 16, Visibility 20, EagerTick 32 32]
     (mount (Some expired_record) 11000 0 0)) = 0"
proof -
  have h0: "well_typed expired_record"
    by (simp add: well_typed_def expired_record_def)
  have h1: "expired_record ''isRunning'' = Some (JBool True)"
    by (simp add: expired_record_def)
  have h2: "expired_record ''endAt'' = Some (JNum 1000)"
    by (simp add: expired_record_def)
  have h3: "(1000::real) \<noteq> 0" and h4: "(1000::real) \<le> 11000"
    by simp_all
  have f: "list_all is_frame [Tick 16 16, Visibility 20, EagerTick 32 32]"
    by simp
  note t = rehydrated_expired_stays_at_zero [OF h0 h1 h2 h3 h4, of 0 0]
  from t h0 f show ?thesis
    by blast
qed

text \<open>
  Claim C9 as stated fails. The test of line 34 is for a truthy \<open>endAt\<close>, and zero is
  not: \<open>epoch_record\<close> has \<open>isRunning\<close> true and an \<open>endAt\<close> of 0, which is
  present and before \<open>now = 1000\<close>, and the engine constructed from it reports a
  running session with the persisted 20000 ms, not 0.
\<close>

theorem rehydrated_zero_endAt_keeps_persisted:
  "well_typed epoch_record \<and>
   epoch_record ''isRunning'' = Some (JBool True) \<and>
   epoch_record ''endAt'' = Some (JNum 0) \<and>
   isRunning (mount (Some epoch_record) 1000 0 0) \<and>
   remainingMs (mount (Some epoch_record) 1000 0 0) = 20000 \<and>
   remainingMs (mount (Some epoch_record) 1000 0 0) \<noteq> 0"
  by (simp add: mount_def firstRender_def initialRemainingMs_def read_defs
      well_typed_def epoch_record_def Let_def)

text \<open>
  Claim C10. When a record \<open>d\<close> is stored and the store accepts the write, the record
  stored by \<open>saveState(patch)\<close> has, at every key, the patch's value if the patch has
  the key and the value of \<open>d\<close> otherwise. So the timer's save keeps \<open>soundMuted\<close>,
  \<open>volume\<close> and \<open>ambientOn\<close>, and the save of the audio preferences keeps every
  other key, the timer's fields among them.
\<close>

theorem saveState_merges:
  assumes "\<not> denied st" and "\<not> full st" and "item st = Some (Encoded d)"
  shows "(\<exists>d'. loadState (saveState patch st) = Some d' \<and>
            (\<forall>k. d' k = (case patch k of Some v \<Rightarrow> Some v | None \<Rightarrow> d k))) \<and>
         (\<exists>d'. loadState (persist now savedAt s st) = Some d' \<and>
            d' ''soundMuted'' = d ''soundMuted'' \<and> d' ''volume'' = d ''volume'' \<and>
            d' ''ambientOn'' = d ''ambientOn'') \<and>
         (\<exists>d'. loadState (persist_audio m v a st) = Some d' \<and>
            (\<forall>k. k \<notin> {''soundMuted'', ''volume'', ''ambientOn''} \<longrightarrow> d' k = d k))"
proof -
  have cur: "loadState st = Some d"
    using assms(1,3) by (rule loadState_ok)
  have gen: "\<And>p. loadState (saveState p st) = Some (d ++ p)"
    using load_after_save [OF assms(1,2)] cur by simp
  have 1: "\<forall>k. (d ++ patch) k = (case patch k of Some v \<Rightarrow> Some v | None \<Rightarrow> d k)"
    by (simp add: map_add_def)
  have 2: "(d ++ timer_record now savedAt s) ''soundMuted'' = d ''soundMuted'' \<and>
           (d ++ timer_record now savedAt s) ''volume'' = d ''volume'' \<and>
           (d ++ timer_record now savedAt s) ''ambientOn'' = d ''ambientOn''"
    using timer_record_audio_keys [of now savedAt s] by (simp add: map_add_def)
  have 3: "\<forall>k. k \<notin> {''soundMuted'', ''volume'', ''ambientOn''} \<longrightarrow>
             (d ++ (d ++ audio_prefs m v a)) k = d k"
    using audio_prefs_other [of _ m v a] by (auto simp: map_add_def split: option.splits)
  have pa: "persist_audio m v a st = saveState (d ++ audio_prefs m v a) st"
    using cur by (simp add: persist_audio_def)
  show ?thesis
    unfolding persist_def pa gen using 1 2 3 by blast
qed

theorem saveState_merges_witness:
  "\<not> denied working_storage \<and> \<not> full working_storage \<and>
   item working_storage = Some (Encoded audio_record) \<and>
   (\<exists>d'. loadState (persist 0 0 (mount None 0 0 0) working_storage) = Some d' \<and>
      d' ''soundMuted'' = Some (JBool True) \<and> d' ''volume'' = Some (JNum (1 / 2)) \<and>
      d' ''ambientOn'' = Some (JBool True)) \<and>
   (\<exists>d'. loadState (persist_audio False 1 False working_storage) = Some d' \<and>
      d' ''mode'' = Some (JStr ''break''))"
proof -
  have h: "\<not> denied working_storage" "\<not> full working_storage"
    "item working_storage = Some (Encoded audio_record)"
    by (simp_all add: working_storage_def)
  have a: "audio_record ''soundMuted'' = Some (JBool True) \<and>
           audio_record ''volume'' = Some (JNum (1 / 2)) \<and>
           audio_record ''ambientOn'' = Some (JBool True) \<and>
           audio_record ''mode'' = Some (JStr ''break'')"
    by (simp add: audio_record_def)
  have k: "''mode'' \<notin> {''soundMuted'', ''volume'', ''ambientOn''}"
    by simp
  note t = saveState_merges [OF h, of _ 0 0 "mount None 0 0 0" False 1 False]
  from t h a k show ?thesis
    by metis
qed

section \<open>Further properties of the engine\<close>

text \<open>
  The transition taken when a frame completes a session (loop on, the elapsed time since
  the last frame at least the positive remaining time) is decided by the mode, and uses
  the durations, that the engine was constructed with: the running flag is kept, and
  either the session is counted, the mode becomes \<open>break\<close> and \<open>focus\<close> is
  notified, or the mode becomes \<open>focus\<close>, the count is kept and \<open>break\<close> is
  notified. Exactly one notification is appended. This is the frame whose updater runs
  while rendering.
\<close>

theorem tick_completion_follows_first_render:
  assumes "ticking s" and "lastPerf s = Some t" and "0 < remainingMs s"
    and "remainingMs s \<le> now - t"
  shows "isRunning (tick now perf s) = isRunning s \<and>
         (if seen_mode s = ''focus''
          then mode (tick now perf s) = ''break'' \<and>
               sessionCount (tick now perf s) = sessionCount s + 1 \<and>
               remainingMs (tick now perf s) = minutesToMs (seen_breakMinutes s) \<and>
               dispatched (tick now perf s) = dispatched s @ [''focus'']
          else mode (tick now perf s) = ''focus'' \<and>
               sessionCount (tick now perf s) = sessionCount s \<and>
               remainingMs (tick now perf s) = minutesToMs (seen_focusMinutes s) \<and>
               dispatched (tick now perf s) = dispatched s @ [''break''])"
proof -
  have z: "max 0 (remainingMs s - (now - t)) = 0"
    using assms(4) by simp
  have "tick now perf s =
          handleSessionComplete perf (s\<lparr>lastPerf := Some now, remainingMs := 0\<rparr>)"
    using assms(1,2,3) z by (simp add: tick_def Let_def)
  then show ?thesis
    by (simp add: handleSessionComplete_def Let_def)
qed

text \<open>The first completed focus interval of a fresh engine.\<close>

theorem tick_completion_follows_first_render_witness:
  "ticking (start 0 (mount None 0 0 0)) \<and> lastPerf (start 0 (mount None 0 0 0)) = Some 0 \<and>
   mode (tick 1500000 1500000 (start 0 (mount None 0 0 0))) = ''break'' \<and>
   sessionCount (tick 1500000 1500000 (start 0 (mount None 0 0 0))) = 1 \<and>
   remainingMs (tick 1500000 1500000 (start 0 (mount None 0 0 0))) = 300000 \<and>
   dispatched (tick 1500000 1500000 (start 0 (mount None 0 0 0))) = [''focus'']"
proof -
  have s: "start 0 (mount None 0 0 0) =
     \<lparr> focusMinutes = 25, breakMinutes = 5, mode = ''focus'', isRunning = True,
       remainingMs = 1500000, sessionCount = 0, species = pickSpecies None 0,
       ticking = True, lastPerf = Some 0, dispatched = [],
       seen_mode = ''focus'', seen_focusMinutes = 25, seen_breakMinutes = 5 \<rparr>"
    by (simp add: mount_None start_def startTicking_def)
  show ?thesis
    using tick_completion_follows_first_render [of "start 0 (mount None 0 0 0)" 0 1500000 1500000]
    by (simp add: s minutesToMs_def)
qed

text \<open>
  When React runs the updater of a completing frame eagerly, mode, session count and
  notification change as above, but the countdown is left at 0; and on a countdown at 0
  no frame of either kind completes a session, so it stays there until \<open>start\<close>,
  \<open>reset\<close> or \<open>setDurations\<close>.
\<close>

theorem tick_eager_completion_stops_at_zero:
  assumes "ticking s" and "lastPerf s = Some t" and "0 < remainingMs s"
    and "remainingMs s \<le> now - t"
  shows "remainingMs (tick_eager now perf s) = 0 \<and>
         isRunning (tick_eager now perf s) = isRunning s \<and>
         ticking (tick_eager now perf s) \<and>
         mode (tick_eager now perf s) = mode (tick now perf s) \<and>
         sessionCount (tick_eager now perf s) = sessionCount (tick now perf s) \<and>
         dispatched (tick_eager now perf s) = dispatched (tick now perf s) \<and>
         (\<forall>t' u'. perf \<le> t' \<longrightarrow>
            remainingMs (tick t' u' (tick_eager now perf s)) = 0 \<and>
            remainingMs (tick_eager t' u' (tick_eager now perf s)) = 0 \<and>
            dispatched (tick t' u' (tick_eager now perf s)) = dispatched (tick_eager now perf s) \<and>
            dispatched (tick_eager t' u' (tick_eager now perf s)) = dispatched (tick_eager now perf s))"
proof -
  have z: "max 0 (remainingMs s - (now - t)) = 0"
    using assms(4) by simp
  have e: "tick_eager now perf s =
          (handleSessionComplete perf (s\<lparr>lastPerf := Some now, remainingMs := 0\<rparr>))\<lparr>remainingMs := 0\<rparr>"
    using assms(1,2,3) z by (simp add: tick_eager_def Let_def)
  have n: "tick now perf s =
          handleSessionComplete perf (s\<lparr>lastPerf := Some now, remainingMs := 0\<rparr>)"
    using assms(1,2,3) z by (simp add: tick_def Let_def)
  have r: "remainingMs (tick_eager now perf s) = 0"
    and k: "ticking (tick_eager now perf s)"
    and l: "lastPerf (tick_eager now perf s) = Some perf"
    unfolding e using assms(1) by (simp_all add: handleSessionComplete_def Let_def)
  have later: "\<And>t' u'. perf \<le> t' \<Longrightarrow>
      tick t' u' (tick_eager now perf s) = (tick_eager now perf s)\<lparr>lastPerf := Some t'\<rparr> \<and>
      tick_eager t' u' (tick_eager now perf s) = (tick_eager now perf s)\<lparr>lastPerf := Some t'\<rparr>"
    using r k l by (simp add: tick_def tick_eager_def Let_def)
  show ?thesis
    using r k later unfolding e n by (simp add: handleSessionComplete_def Let_def)
qed

theorem tick_eager_completion_stops_at_zero_witness:
  "ticking (start 0 (mount None 0 0 0)) \<and> lastPerf (start 0 (mount None 0 0 0)) = Some 0 \<and>
   remainingMs (tick_eager 1500000 1500000 (start 0 (mount None 0 0 0))) = 0 \<and>
   mode (tick_eager 1500000 1500000 (start 0 (mount None 0 0 0))) = ''break'' \<and>
   remainingMs (tick 1500016 1500016 (tick_eager 1500000 1500000 (start 0 (mount None 0 0 0)))) = 0"
proof -
  have s: "start 0 (mount None 0 0 0) =
     \<lparr> focusMinutes = 25, breakMinutes = 5, mode = ''focus'', isRunning = True,
       remainingMs = 1500000, sessionCount = 0, species = pickSpecies None 0,
       ticking = True, lastPerf = Some 0, dispatched = [],
       seen_mode = ''focus'', seen_focusMinutes = 25, seen_breakMinutes = 5 \<rparr>"
    by (simp add: mount_None start_def startTicking_def)
  have h: "ticking (start 0 (mount None 0 0 0))" "lastPerf (start 0 (mount None 0 0 0)) = Some 0"
    "0 < remainingMs (start 0 (mount None 0 0 0))"
    "remainingMs (start 0 (mount None 0 0 0)) \<le> 1500000 - 0"
    by (simp_all add: s)
  have m: "mode (tick 1500000 1500000 (start 0 (mount None 0 0 0))) = ''break''"
    by (simp add: s tick_def handleSessionComplete_def Let_def)
  have l: "(1500000::real) \<le> 1500016"
    by simp
  note t = tick_eager_completion_stops_at_zero [OF h, of 1500000]
  from t h m l show ?thesis
    by metis
qed

text \<open>
  The examples of rehydration: from a well-typed record of a running session whose
  \<open>endAt\<close> is not zero, an \<open>endAt\<close> 5000 ms ahead with 20000 ms persisted gives a
  countdown of 5000 ms and a running engine, and an \<open>endAt\<close> in the past gives a
  countdown of 0.
\<close>

theorem rehydration_examples:
  assumes "well_typed d"
    and "d ''isRunning'' = Some (JBool True)" and "d ''endAt'' = Some (JNum e)" and "e \<noteq> 0"
  shows "(e = now + 5000 \<and> d ''remainingMs'' = Some (JNum 20000) \<longrightarrow>
            remainingMs (mount (Some d) now perf rnd) = 5000 \<and>
            isRunning (mount (Some d) now perf rnd) \<and> ticking (mount (Some d) now perf rnd)) \<and>
         (e < now \<longrightarrow> remainingMs (mount (Some d) now perf rnd) = 0)"
proof -
  have rw: "running_with_endAt (Some d) = Some e"
    by (rule running_with_endAt_Some [OF assms(2-4)])
  have past: "e < now \<Longrightarrow> remainingMs (firstRender (Some d) now rnd) = 0"
    using rw by (simp add: firstRender_def initialRemainingMs_def Let_def)
  have ahead: "e = now + 5000 \<Longrightarrow> d ''remainingMs'' = Some (JNum 20000) \<Longrightarrow>
      remainingMs (firstRender (Some d) now rnd) = 5000"
    using rw by (simp add: firstRender_def initialRemainingMs_def num_field_def field_def Let_def)
  have on: "0 < remainingMs (firstRender (Some d) now rnd) \<Longrightarrow>
      isRunning (mount (Some d) now perf rnd) \<and> ticking (mount (Some d) now perf rnd)"
    using rw by (simp add: mount_def startTicking_def firstRender_def Let_def)
  show ?thesis
    using past ahead on by (auto simp: remainingMs_mount)
qed

theorem rehydration_examples_witness:
  "well_typed drift_record \<and> remainingMs (mount (Some drift_record) 45000 0 0) = 5000 \<and>
   remainingMs (mount (Some drift_record) 60000 0 0) = 0"
proof -
  have h: "well_typed drift_record" "drift_record ''isRunning'' = Some (JBool True)"
    "drift_record ''endAt'' = Some (JNum 50000)" "(50000::real) \<noteq> 0"
    by (simp_all add: well_typed_def drift_record_def)
  have r: "drift_record ''remainingMs'' = Some (JNum 20000)"
    by (simp add: drift_record_def)
  show ?thesis
    using rehydration_examples [OF h, of 45000 0 0] rehydration_examples [OF h, of 60000 0 0] h(1) r
    by simp
qed

text \<open>Pausing twice is pausing once.\<close>

theorem pause_idempotent: "pause (pause s) = pause s"
  by (simp add: pause_def stopTicking_def)

text \<open>
  \<open>reset\<close> stops the loop, clears the running flag and restarts the countdown of the
  current mode; mode and session count are kept.
\<close>

theorem reset_restarts:
  "\<not> isRunning (reset s) \<and> \<not> ticking (reset s) \<and> remainingMs (reset s) = totalMs (reset s) \<and>
   mode (reset s) = mode s \<and> sessionCount (reset s) = sessionCount s"
  by (simp add: reset_def stopTicking_def totalMs_def)

text \<open>
  \<open>start\<close> sets the running flag and turns the loop on; a countdown at zero is
  refilled to the total of the current mode, any other countdown is kept.
\<close>

theorem start_refills_at_zero:
  "isRunning (start perf s) \<and> ticking (start perf s) \<and>
   remainingMs (start perf s) = (if remainingMs s \<le> 0 then totalMs s else remainingMs s)"
  by (simp add: start_def startTicking_def)

text \<open>
  An engine constructed from the record that was just persisted has the durations, mode,
  species and session count of the persisted state, when that state's durations are
  within the limits and its species is one of the list.
\<close>

theorem reload_same_engine:
  assumes "\<not> denied st" and "\<not> full st"
    and "minFocus \<le> focusMinutes s" and "focusMinutes s \<le> maxFocus"
    and "minBreak \<le> breakMinutes s" and "breakMinutes s \<le> maxBreak"
    and "species s \<in> set all_species"
  shows "focusMinutes (mount (loadState (persist now savedAt s st)) now' perf rnd) = focusMinutes s \<and>
         breakMinutes (mount (loadState (persist now savedAt s st)) now' perf rnd) = breakMinutes s \<and>
         mode (mount (loadState (persist now savedAt s st)) now' perf rnd) = mode s \<and>
         species (mount (loadState (persist now savedAt s st)) now' perf rnd) = species s \<and>
         sessionCount (mount (loadState (persist now savedAt s st)) now' perf rnd) = sessionCount s"
proof -
  let ?p = "loadState (persist now savedAt s st)"
  have l: "?p = Some ((case loadState st of None \<Rightarrow> Map.empty | Some d \<Rightarrow> d) ++ timer_record now savedAt s)"
    unfolding persist_def using assms(1,2) by (rule load_after_save)
  have f: "field ?p ''focusMinutes'' = Some (JNum (focusMinutes s))"
    and b: "field ?p ''breakMinutes'' = Some (JNum (breakMinutes s))"
    and m: "field ?p ''mode'' = Some (JStr (mode s))"
    and sp: "field ?p ''species'' = Some (JStr (species s))"
    and c: "field ?p ''sessionCount'' = Some (JNum (sessionCount s))"
    unfolding l by (simp_all add: field_def timer_record_def)
  have fr: "focusMinutes (firstRender ?p now' rnd) = focusMinutes s"
    using f assms(3,4) by (simp add: firstRender_def Let_def clamp_inside)
  have br: "breakMinutes (firstRender ?p now' rnd) = breakMinutes s"
    using b assms(5,6) by (simp add: firstRender_def Let_def clamp_inside)
  have mr: "mode (firstRender ?p now' rnd) = mode s"
    using m by (simp add: firstRender_def Let_def str_field_def)
  have sr: "species (firstRender ?p now' rnd) = species s"
    using sp assms(7) by (simp add: firstRender_def Let_def pickSpecies_def)
  have cr: "sessionCount (firstRender ?p now' rnd) = sessionCount s"
    using c by (simp add: firstRender_def Let_def num_field_def)
  show ?thesis
    using fr br mr sr cr by (simp add: mount_def startTicking_def Let_def)
qed

text \<open>Changed durations survive a reload; the random draw is not used.\<close>

theorem reload_same_engine_witness:
  "focusMinutes (mount (loadState (persist 0 0 (setDurations (Num 50) (Num 10) (mount None 0 0 0)) working_storage)) 9 0 (3/4)) = 50 \<and>
   breakMinutes (mount (loadState (persist 0 0 (setDurations (Num 50) (Num 10) (mount None 0 0 0)) working_storage)) 9 0 (3/4)) = 10 \<and>
   species (mount (loadState (persist 0 0 (setDurations (Num 50) (Num 10) (mount None 0 0 0)) working_storage)) 9 0 (3/4)) = ''fern''"
proof -
  have s: "setDurations (Num 50) (Num 10) (mount None 0 0 0) =
     \<lparr> focusMinutes = 50, breakMinutes = 10, mode = ''focus'', isRunning = False,
       remainingMs = 3000000, sessionCount = 0, species = ''fern'',
       ticking = False, lastPerf = None, dispatched = [],
       seen_mode = ''focus'', seen_focusMinutes = 25, seen_breakMinutes = 5 \<rparr>"
    by (simp add: mount_None setDurations_def clamp_def limits_defs minutesToMs_def Let_def
        pickSpecies_def all_species_def)
  show ?thesis
    using reload_same_engine [of working_storage "setDurations (Num 50) (Num 10) (mount None 0 0 0)" 0 0 9 0 "3/4"]
    by (simp add: s working_storage_def limits_defs all_species_def)
qed

end
